theory Spec2Isabelle
  imports Complex_Main
begin

section \<open>The values of the notebook's arithmetic\<close>

text \<open>
  The notebook \<^verbatim>\<open>AB-Testing_CTR.ipynb\<close> reads its counts out of a pandas frame, so every
  number it computes with is a numpy scalar: \<^verbatim>\<open>numpy.int64\<close> for the counts and
  \<^verbatim>\<open>numpy.float64\<close> for everything derived from them. Arithmetic on numpy scalars never
  raises: a division by zero or the square root of a negative number gives \<^verbatim>\<open>inf\<close> or
  \<^verbatim>\<open>nan\<close> (with a warning on stderr), and every ordering comparison with \<^verbatim>\<open>nan\<close> is false.

  A \<^verbatim>\<open>float64\<close> is modelled as a real number or one of the three special values. Finite
  results are exact: rounding to 53 bits, overflow and underflow are not modelled. Of the
  \<^verbatim>\<open>int64\<close> arithmetic, the sum over the click column wraps around (\<open>int64\<close> below); the
  single addition of the two click counts in the test is not wrapped, which would need a
  count of \<open>2 ^ 62\<close>. The two zeros are identified; the zeros that
  the notebook divides by (a user count, the standard error, a pooled deviation over counts
  produced by \<^verbatim>\<open>nunique\<close>) are all \<^verbatim>\<open>+0.0\<close>, which is the zero that \<open>np_div\<close> assumes.
\<close>

datatype npfloat = Fin real | PInf | NInf | NaN

fun np_neg :: "npfloat \<Rightarrow> npfloat" where
  "np_neg (Fin x) = Fin (- x)"
| "np_neg PInf = NInf"
| "np_neg NInf = PInf"
| "np_neg NaN = NaN"

fun np_add :: "npfloat \<Rightarrow> npfloat \<Rightarrow> npfloat" where
  "np_add NaN _ = NaN"
| "np_add _ NaN = NaN"
| "np_add PInf NInf = NaN"
| "np_add NInf PInf = NaN"
| "np_add PInf _ = PInf"
| "np_add _ PInf = PInf"
| "np_add NInf _ = NInf"
| "np_add _ NInf = NInf"
| "np_add (Fin a) (Fin b) = Fin (a + b)"

definition np_sub :: "npfloat \<Rightarrow> npfloat \<Rightarrow> npfloat" where
  "np_sub a b = np_add a (np_neg b)"

fun np_mul :: "npfloat \<Rightarrow> npfloat \<Rightarrow> npfloat" where
  "np_mul NaN _ = NaN"
| "np_mul _ NaN = NaN"
| "np_mul (Fin a) (Fin b) = Fin (a * b)"
| "np_mul (Fin a) PInf = (if a = 0 then NaN else if 0 < a then PInf else NInf)"
| "np_mul (Fin a) NInf = (if a = 0 then NaN else if 0 < a then NInf else PInf)"
| "np_mul PInf (Fin b) = (if b = 0 then NaN else if 0 < b then PInf else NInf)"
| "np_mul NInf (Fin b) = (if b = 0 then NaN else if 0 < b then NInf else PInf)"
| "np_mul PInf PInf = PInf"
| "np_mul PInf NInf = NInf"
| "np_mul NInf PInf = NInf"
| "np_mul NInf NInf = PInf"

fun np_div :: "npfloat \<Rightarrow> npfloat \<Rightarrow> npfloat" where
  "np_div NaN _ = NaN"
| "np_div _ NaN = NaN"
| "np_div (Fin a) (Fin b) =
     (if b \<noteq> 0 then Fin (a / b)
      else if a = 0 then NaN else if 0 < a then PInf else NInf)"
| "np_div (Fin a) PInf = Fin 0"
| "np_div (Fin a) NInf = Fin 0"
| "np_div PInf (Fin b) = (if 0 \<le> b then PInf else NInf)"
| "np_div NInf (Fin b) = (if 0 \<le> b then NInf else PInf)"
| "np_div PInf PInf = NaN"
| "np_div PInf NInf = NaN"
| "np_div NInf PInf = NaN"
| "np_div NInf NInf = NaN"

fun np_sqrt :: "npfloat \<Rightarrow> npfloat" where
  "np_sqrt (Fin x) = (if x < 0 then NaN else Fin (sqrt x))"
| "np_sqrt PInf = PInf"
| "np_sqrt NInf = NaN"
| "np_sqrt NaN = NaN"

fun np_abs :: "npfloat \<Rightarrow> npfloat" where
  "np_abs (Fin x) = Fin \<bar>x\<bar>"
| "np_abs PInf = PInf"
| "np_abs NInf = PInf"
| "np_abs NaN = NaN"

fun np_le :: "npfloat \<Rightarrow> npfloat \<Rightarrow> bool" where
  "np_le NaN _ = False"
| "np_le _ NaN = False"
| "np_le (Fin a) (Fin b) = (a \<le> b)"
| "np_le NInf _ = True"
| "np_le _ PInf = True"
| "np_le PInf _ = False"
| "np_le _ NInf = False"

fun np_lt :: "npfloat \<Rightarrow> npfloat \<Rightarrow> bool" where
  "np_lt NaN _ = False"
| "np_lt _ NaN = False"
| "np_lt (Fin a) (Fin b) = (a < b)"
| "np_lt PInf _ = False"
| "np_lt _ NInf = False"
| "np_lt NInf _ = True"
| "np_lt _ PInf = True"

definition np_ge :: "npfloat \<Rightarrow> npfloat \<Rightarrow> bool" where
  "np_ge a b = np_le b a"

text \<open>
  \<^verbatim>\<open>round(x, n)\<close> on a \<^verbatim>\<open>float64\<close> is numpy's: scale by \<open>10 ^ n\<close>, round to the nearest
  integer with ties going to the even one (\<^verbatim>\<open>rint\<close>), and scale back. The special values
  are returned as they are.
\<close>

definition rint :: "real \<Rightarrow> int" where
  "rint x =
     (let f = \<lfloor>x\<rfloor>; r = x - of_int f
      in if r < 1 / 2 then f else if 1 / 2 < r then f + 1
         else if even f then f else f + 1)"

fun np_round :: "npfloat \<Rightarrow> nat \<Rightarrow> npfloat" where
  "np_round (Fin x) n = Fin (of_int (rint (x * 10 ^ n)) / 10 ^ n)"
| "np_round v n = v"

section \<open>The normal distribution of scipy\<close>

text \<open>
  \<^verbatim>\<open>scipy.stats.norm\<close> is a library object, not code of the notebook: its survival function
  \<^verbatim>\<open>sf\<close> and its quantile function \<^verbatim>\<open>ppf\<close>, which the notebook calls, are parameters of
  the model, given on the reals; so is its distribution function \<^verbatim>\<open>cdf\<close>, which the
  notebook does not call. What scipy returns outside the reals and outside the open unit
  interval is fixed: \<^verbatim>\<open>sf(inf) = 0\<close>, \<^verbatim>\<open>sf(-inf) = 1\<close>, \<^verbatim>\<open>cdf(inf) = 1\<close>,
  \<^verbatim>\<open>cdf(-inf) = 0\<close>, \<^verbatim>\<open>ppf(0) = -inf\<close>, \<^verbatim>\<open>ppf(1) = inf\<close>, and \<^verbatim>\<open>nan\<close> elsewhere.
\<close>

record norm_dist =
  sf :: "real \<Rightarrow> real"
  cdf :: "real \<Rightarrow> real"
  ppf :: "real \<Rightarrow> real"

fun norm_cdf :: "norm_dist \<Rightarrow> npfloat \<Rightarrow> npfloat" where
  "norm_cdf nd (Fin x) = Fin (cdf nd x)"
| "norm_cdf nd PInf = Fin 1"
| "norm_cdf nd NInf = Fin 0"
| "norm_cdf nd NaN = NaN"

fun norm_sf :: "norm_dist \<Rightarrow> npfloat \<Rightarrow> npfloat" where
  "norm_sf nd (Fin x) = Fin (sf nd x)"
| "norm_sf nd PInf = Fin 0"
| "norm_sf nd NInf = Fin 1"
| "norm_sf nd NaN = NaN"

fun norm_ppf :: "norm_dist \<Rightarrow> npfloat \<Rightarrow> npfloat" where
  "norm_ppf nd (Fin q) =
     (if 0 < q \<and> q < 1 then Fin (ppf nd q)
      else if q = 0 then NInf else if q = 1 then PInf else NaN)"
| "norm_ppf nd v = NaN"

section \<open>Loading and aggregating the click data\<close>

text \<open>
  A row of \<^verbatim>\<open>click_data.csv\<close>. The timestamp column is parsed and never read again, so it
  is left out. The frame \<^verbatim>\<open>df\<close> is the list of its rows. A user id may be missing in the
  file (\<open>None\<close>, which pandas reads as \<^verbatim>\<open>NaN\<close>); the click column is an \<^verbatim>\<open>int64\<close> column.
\<close>

record click_row =
  user_id :: "int option"
  group_col :: string
  click_col :: int

text \<open>The value of an integer as \<^verbatim>\<open>int64\<close> arithmetic leaves it: wrapped into \<open>[-2^63, 2^63)\<close>.\<close>

definition int64 :: "int \<Rightarrow> int" where
  "int64 x = (x + 2 ^ 63) mod 2 ^ 64 - 2 ^ 63"

datatype error = KeyError string | NameError string

record counts =
  users :: nat
  click :: int

definition group_rows :: "click_row list \<Rightarrow> string \<Rightarrow> click_row list" where
  "group_rows df g = filter (\<lambda>r. group_col r = g) df"

text \<open>
  \<^verbatim>\<open>dfCounts = df.groupby('group').agg({'user_id': 'nunique', 'click': 'sum'})\<close>: one line
  for every group that occurs in the frame, none for a group without rows. \<^verbatim>\<open>nunique\<close>
  counts the distinct user ids that are not missing, and \<^verbatim>\<open>sum\<close> adds the clicks in
  \<^verbatim>\<open>int64\<close>. Nothing is checked and nothing is raised.
\<close>

definition dfCounts :: "click_row list \<Rightarrow> string \<Rightarrow> counts option" where
  "dfCounts df g =
     (let rs = group_rows df g
      in if rs = [] then None
         else Some \<lparr>users = length (remdups (filter (\<lambda>u. u \<noteq> None) (map user_id rs))),
                    click = int64 (sum_list (map click_col rs))\<rparr>)"

text \<open>
  \<^verbatim>\<open>CTR = df.groupby('group')['click'].agg(['mean', std_dev, std_err])\<close> with
  \<^verbatim>\<open>np.std(x, ddof=0)\<close> and \<^verbatim>\<open>stats.sem(x, ddof=0)\<close>: the statistics are taken over the
  rows of the group, which is never empty, so all three are finite.
\<close>

record ctr_row =
  CTR :: real
  std_deviation :: real
  std_error :: real

definition mean :: "int list \<Rightarrow> real" where
  "mean xs = of_int (sum_list xs) / of_nat (length xs)"

definition std_dev :: "int list \<Rightarrow> real" where
  "std_dev xs =
     sqrt (sum_list (map (\<lambda>x. (of_int x - mean xs)\<^sup>2) xs) / of_nat (length xs))"

definition std_err :: "int list \<Rightarrow> real" where
  "std_err xs = std_dev xs / sqrt (of_nat (length xs))"

definition CTR_frame :: "click_row list \<Rightarrow> string \<Rightarrow> ctr_row option" where
  "CTR_frame df g =
     (let xs = map click_col (group_rows df g)
      in if xs = [] then None
         else Some \<lparr>CTR = mean xs, std_deviation = std_dev xs, std_error = std_err xs\<rparr>)"

text \<open>\<^verbatim>\<open>frame.loc[g, column]\<close> raises \<^verbatim>\<open>KeyError\<close> for a group that has no line.\<close>

definition loc :: "(string \<Rightarrow> 'a option) \<Rightarrow> string \<Rightarrow> error + 'a" where
  "loc frame g = (case frame g of None \<Rightarrow> Inl (KeyError g) | Some v \<Rightarrow> Inr v)"

section \<open>Approach 1: the pooled two-sample Z-test\<close>

record ztest =
  p_con_hat :: npfloat
  p_exp_hat :: npfloat
  p_pooled_hat :: npfloat
  pooled_variance :: npfloat
  SE :: npfloat
  Test_stat :: npfloat
  Z_crit :: npfloat
  p_value :: npfloat
  significant :: bool
  CI_lower :: npfloat
  CI_upper :: npfloat
  practically_significant :: bool

text \<open>
  The cells of Approach 1 in their order, from the counts \<open>X\<close> (clicks) and \<open>N\<close> (users)
  of the two groups. The two printed verdicts are the booleans \<open>significant\<close> and
  \<open>practically_significant\<close>. The cells that plot (the count plot before Approach 1,
  the rejection region and the intervals) are library calls on the same values and are
  not modelled; like the loading of the file they can raise on their own, so
  \<open>approach1\<close> and \<open>approach2\<close> say what the statistical cells compute and raise,
  not that a whole run of the notebook gets to them.
\<close>

definition z_test :: "norm_dist \<Rightarrow> real \<Rightarrow> real \<Rightarrow> int \<Rightarrow> nat \<Rightarrow> int \<Rightarrow> nat \<Rightarrow> ztest" where
  "z_test nd alpha delta X_con N_con X_exp N_exp =
     (let pc = np_div (Fin (of_int X_con)) (Fin (of_nat N_con));
          pe = np_div (Fin (of_int X_exp)) (Fin (of_nat N_exp));
          pp = np_div (Fin (of_int (X_con + X_exp))) (Fin (of_nat (N_con + N_exp)));
          pv = np_mul (np_mul pp (np_sub (Fin 1) pp))
                 (np_add (np_div (Fin 1) (Fin (of_nat N_con)))
                         (np_div (Fin 1) (Fin (of_nat N_exp))));
          se = np_sqrt pv;
          ts = np_div (np_sub pc pe) se;
          zc = norm_ppf nd (Fin (1 - alpha / 2));
          p = np_mul (Fin 2) (norm_sf nd (np_abs ts));
          lo = np_round (np_sub (np_sub pe pc) (np_mul se zc)) 3;
          hi = np_round (np_add (np_sub pe pc) (np_mul se zc)) 3
      in \<lparr>p_con_hat = pc, p_exp_hat = pe, p_pooled_hat = pp, pooled_variance = pv,
          SE = se, Test_stat = ts, Z_crit = zc, p_value = p,
          significant = np_le p (Fin alpha),
          CI_lower = lo, CI_upper = hi,
          practically_significant = np_ge lo (Fin delta)\<rparr>)"

definition approach1 ::
  "norm_dist \<Rightarrow> real \<Rightarrow> real \<Rightarrow> (string \<Rightarrow> counts option) \<Rightarrow> error + ztest" where
  "approach1 nd alpha delta counts_frame =
     (case loc counts_frame ''con'' of
        Inl e \<Rightarrow> Inl e
      | Inr con \<Rightarrow>
          (case loc counts_frame ''exp'' of
             Inl e \<Rightarrow> Inl e
           | Inr ex \<Rightarrow>
               Inr (z_test nd alpha delta (click con) (users con) (click ex) (users ex))))"

text \<open>
  The bounds of the interval before \<^verbatim>\<open>round\<close> is applied to them. The notebook keeps
  neither; they are what its rounded bounds are compared with.
\<close>

definition unrounded_lower :: "ztest \<Rightarrow> npfloat" where
  "unrounded_lower r = np_sub (np_sub (p_exp_hat r) (p_con_hat r)) (np_mul (SE r) (Z_crit r))"

definition unrounded_upper :: "ztest \<Rightarrow> npfloat" where
  "unrounded_upper r = np_add (np_sub (p_exp_hat r) (p_con_hat r)) (np_mul (SE r) (Z_crit r))"

section \<open>Approach two: Cohen's d\<close>

text \<open>
  The last statements of the second approach. (The calls into \<^verbatim>\<open>statsmodels\<close> before them
  are library code and feed nothing into the effect size.) The \<^verbatim>\<open>if\<close>/\<^verbatim>\<open>elif\<close> chain
  has no \<^verbatim>\<open>else\<close>: when no branch is taken the name \<^verbatim>\<open>effect\<close> stays unbound and the
  \<^verbatim>\<open>print\<close> that follows raises \<^verbatim>\<open>NameError\<close>.
\<close>

definition effect_of :: "npfloat \<Rightarrow> string option" where
  "effect_of dv =
     (if np_le (Fin 0) dv \<and> np_lt dv (Fin (2 / 10)) then Some ''little or no effect''
      else if np_le (Fin (2 / 10)) dv \<and> np_lt dv (Fin (5 / 10)) then Some ''small effect size''
      else if np_le (Fin (5 / 10)) dv \<and> np_lt dv (Fin (8 / 10)) then Some ''medium effect size''
      else if np_ge dv (Fin (8 / 10)) then Some ''large effect size''
      else None)"

record effect_size =
  pooled_std_dev :: npfloat
  cohen_d :: npfloat
  effect :: string

definition pooled_sd :: "nat \<Rightarrow> nat \<Rightarrow> real \<Rightarrow> real \<Rightarrow> npfloat" where
  "pooled_sd N_con N_exp sd_con sd_exp =
     np_sqrt (np_div
       (np_add (np_mul (Fin (of_int (int N_con - 1))) (Fin sd_con))
               (np_mul (Fin (of_int (int N_exp - 1))) (Fin sd_exp)))
       (Fin (of_int (int N_con + int N_exp - 2))))"

text \<open>The values bound to \<^verbatim>\<open>pooled_std_dev\<close> and \<^verbatim>\<open>d\<close>.\<close>

definition effect_d ::
  "nat \<Rightarrow> nat \<Rightarrow> (string \<Rightarrow> ctr_row option) \<Rightarrow> error + npfloat \<times> npfloat" where
  "effect_d N_con N_exp ctr_frame =
     (case loc ctr_frame ''con'' of
        Inl e \<Rightarrow> Inl e
      | Inr con \<Rightarrow>
          (case loc ctr_frame ''exp'' of
             Inl e \<Rightarrow> Inl e
           | Inr ex \<Rightarrow>
               (let psd = pooled_sd N_con N_exp (std_deviation con) (std_deviation ex)
                in Inr (psd, np_div (np_sub (Fin (CTR ex)) (Fin (CTR con))) psd))))"

definition cohens_d ::
  "nat \<Rightarrow> nat \<Rightarrow> (string \<Rightarrow> ctr_row option) \<Rightarrow> error + effect_size" where
  "cohens_d N_con N_exp ctr_frame =
     (case effect_d N_con N_exp ctr_frame of
        Inl e \<Rightarrow> Inl e
      | Inr (psd, dv) \<Rightarrow>
          (case effect_of dv of
             None \<Rightarrow> Inl (NameError ''effect'')
           | Some e \<Rightarrow> Inr \<lparr>pooled_std_dev = psd, cohen_d = dv, effect = e\<rparr>))"

text \<open>
  The second approach on a frame: \<^verbatim>\<open>N_con\<close> and \<^verbatim>\<open>N_exp\<close> are the globals that the
  first approach read out of \<^verbatim>\<open>dfCounts\<close>.
\<close>

definition approach2 :: "click_row list \<Rightarrow> error + effect_size" where
  "approach2 df =
     (case loc (dfCounts df) ''con'' of
        Inl e \<Rightarrow> Inl e
      | Inr con \<Rightarrow>
          (case loc (dfCounts df) ''exp'' of
             Inl e \<Rightarrow> Inl e
           | Inr ex \<Rightarrow> cohens_d (users con) (users ex) (CTR_frame df)))"

section \<open>Values of the library for the examples\<close>

text \<open>
  The values of \<^verbatim>\<open>scipy.stats.norm\<close> that the examples below read, as scipy returns
  them: \<^verbatim>\<open>sf(0) = 0.5\<close>, \<^verbatim>\<open>cdf(0) = 0.5\<close> and \<^verbatim>\<open>ppf(0.975) = 1.959963984540054\<close>.
  No example evaluates the table at another argument; there it holds \<open>0\<close> for \<open>sf\<close> and
  \<open>ppf\<close> and \<open>1\<close> for \<open>cdf\<close>, which keeps \<open>sf x = 1 - cdf x\<close> at every \<open>x\<close>.
\<close>

definition scipy_norm :: norm_dist where
  "scipy_norm =
     \<lparr>sf = (\<lambda>x. if x = 0 then 1 / 2 else 0),
      cdf = (\<lambda>x. if x = 0 then 1 / 2 else 1),
      ppf = (\<lambda>q. if q = 39 / 40 then 1959963984540054 / 10 ^ 15 else 0)\<rparr>"

definition frame_of :: "counts \<Rightarrow> counts \<Rightarrow> string \<Rightarrow> counts option" where
  "frame_of con ex = [''con'' \<mapsto> con, ''exp'' \<mapsto> ex]"

text \<open>
  Two small frames of eight users, four in each group: in \<open>df_up\<close> two users of the control
  group click and all four of the experimental group; in \<open>df_down\<close> two users of the
  control group click and none of the experimental group.
\<close>

definition df_up :: "click_row list" where
  "df_up =
     [\<lparr>user_id = Some 1, group_col = ''con'', click_col = 1\<rparr>,
      \<lparr>user_id = Some 2, group_col = ''con'', click_col = 1\<rparr>,
      \<lparr>user_id = Some 3, group_col = ''con'', click_col = 0\<rparr>,
      \<lparr>user_id = Some 4, group_col = ''con'', click_col = 0\<rparr>,
      \<lparr>user_id = Some 5, group_col = ''exp'', click_col = 1\<rparr>,
      \<lparr>user_id = Some 6, group_col = ''exp'', click_col = 1\<rparr>,
      \<lparr>user_id = Some 7, group_col = ''exp'', click_col = 1\<rparr>,
      \<lparr>user_id = Some 8, group_col = ''exp'', click_col = 1\<rparr>]"

definition df_down :: "click_row list" where
  "df_down =
     [\<lparr>user_id = Some 1, group_col = ''con'', click_col = 1\<rparr>,
      \<lparr>user_id = Some 2, group_col = ''con'', click_col = 1\<rparr>,
      \<lparr>user_id = Some 3, group_col = ''con'', click_col = 0\<rparr>,
      \<lparr>user_id = Some 4, group_col = ''con'', click_col = 0\<rparr>,
      \<lparr>user_id = Some 5, group_col = ''exp'', click_col = 0\<rparr>,
      \<lparr>user_id = Some 6, group_col = ''exp'', click_col = 0\<rparr>,
      \<lparr>user_id = Some 7, group_col = ''exp'', click_col = 0\<rparr>,
      \<lparr>user_id = Some 8, group_col = ''exp'', click_col = 0\<rparr>]"

text \<open>
  Two frames in which a user id occurs on several rows. In \<open>df_rep\<close> the two users of the
  control group have two rows each, one with a click and one without, and the two users of
  the experimental group one row each, one with a click. In \<open>df_dup\<close> one user of the
  control group has three rows with a click.
\<close>

definition df_rep :: "click_row list" where
  "df_rep =
     [\<lparr>user_id = Some 1, group_col = ''con'', click_col = 1\<rparr>,
      \<lparr>user_id = Some 1, group_col = ''con'', click_col = 0\<rparr>,
      \<lparr>user_id = Some 2, group_col = ''con'', click_col = 1\<rparr>,
      \<lparr>user_id = Some 2, group_col = ''con'', click_col = 0\<rparr>,
      \<lparr>user_id = Some 3, group_col = ''exp'', click_col = 1\<rparr>,
      \<lparr>user_id = Some 4, group_col = ''exp'', click_col = 0\<rparr>]"

definition df_dup :: "click_row list" where
  "df_dup =
     [\<lparr>user_id = Some 1, group_col = ''con'', click_col = 1\<rparr>,
      \<lparr>user_id = Some 1, group_col = ''con'', click_col = 1\<rparr>,
      \<lparr>user_id = Some 1, group_col = ''con'', click_col = 1\<rparr>,
      \<lparr>user_id = Some 2, group_col = ''con'', click_col = 0\<rparr>,
      \<lparr>user_id = Some 3, group_col = ''exp'', click_col = 1\<rparr>,
      \<lparr>user_id = Some 4, group_col = ''exp'', click_col = 0\<rparr>]"

section \<open>Rounding to the nearest, ties to even\<close>

lemma rint_error: "\<bar>of_int (rint x) - x\<bar> \<le> 1 / 2"
proof -
  have "of_int \<lfloor>x\<rfloor> \<le> x" "x < of_int \<lfloor>x\<rfloor> + 1" by linarith+
  then show ?thesis by (auto simp: rint_def Let_def)
qed

lemma rint_neg: "rint (- x) = - rint x"
proof (cases "x = of_int \<lfloor>x\<rfloor>")
  case True
  then have "\<lfloor>- x\<rfloor> = - \<lfloor>x\<rfloor>"
    by (metis floor_of_int of_int_minus)
  with True show ?thesis by (simp add: rint_def Let_def)
next
  case False
  then have fl: "\<lfloor>- x\<rfloor> = - \<lfloor>x\<rfloor> - 1"
    by (simp add: floor_minus ceiling_altdef)
  have "of_int \<lfloor>x\<rfloor> \<le> x" by linarith
  with False have pos: "0 < x - of_int \<lfloor>x\<rfloor>" by linarith
  show ?thesis
    unfolding rint_def Let_def fl using pos by (auto simp: algebra_simps)
qed

section \<open>Signs\<close>

lemma np_neg_neg [simp]: "np_neg (np_neg v) = v"
  by (cases v) simp_all

lemma np_add_commute: "np_add a b = np_add b a"
  by (cases a; cases b) simp_all

lemma np_neg_add: "np_neg (np_add a b) = np_add (np_neg a) (np_neg b)"
  by (cases a; cases b) simp_all

lemma np_neg_sub: "np_neg (np_sub a b) = np_sub b a"
  by (simp add: np_sub_def np_neg_add np_add_commute)

lemma np_neg_div: "np_neg (np_div a s) = np_div (np_neg a) s"
  by (cases a; cases s) auto

lemma np_abs_neg [simp]: "np_abs (np_neg v) = np_abs v"
  by (cases v) simp_all

lemma np_round_neg: "np_round (np_neg v) n = np_neg (np_round v n)"
  by (cases v) (simp_all add: rint_neg)

section \<open>The run of the first approach\<close>

lemma loc_frame_of [simp]:
  "loc (frame_of con ex) ''con'' = Inr con" "loc (frame_of con ex) ''exp'' = Inr ex"
  by (simp_all add: loc_def frame_of_def)

lemma approach1_frame_of:
  "approach1 nd alpha delta (frame_of con ex)
     = Inr (z_test nd alpha delta (click con) (users con) (click ex) (users ex))"
  by (simp add: approach1_def)

lemma z_test_swap:
  fixes nd alpha delta X_con N_con X_exp N_exp
  defines "r \<equiv> z_test nd alpha delta X_con N_con X_exp N_exp"
      and "r' \<equiv> z_test nd alpha delta X_exp N_exp X_con N_con"
  shows "Test_stat r' = np_neg (Test_stat r)"
    and "p_value r' = p_value r"
    and "Z_crit r' = Z_crit r"
    and "SE r' = SE r"
    and "CI_lower r' = np_neg (CI_upper r)"
    and "CI_upper r' = np_neg (CI_lower r)"
    and "significant r' = significant r"
proof -
  have se: "SE r' = SE r"
    by (simp add: r_def r'_def z_test_def Let_def add.commute np_add_commute)
  show ts: "Test_stat r' = np_neg (Test_stat r)"
    using se by (simp add: r_def r'_def z_test_def Let_def np_neg_div np_neg_sub add.commute np_add_commute)
  show pv: "p_value r' = p_value r"
  proof -
    have "p_value r' = np_mul (Fin 2) (norm_sf nd (np_abs (Test_stat r')))"
      by (simp add: r'_def z_test_def Let_def)
    also have "\<dots> = np_mul (Fin 2) (norm_sf nd (np_abs (Test_stat r)))"
      by (simp add: ts)
    also have "\<dots> = p_value r"
      by (simp add: r_def z_test_def Let_def)
    finally show ?thesis .
  qed
  show "Z_crit r' = Z_crit r" by (simp add: r_def r'_def z_test_def Let_def)
  show "SE r' = SE r" by (rule se)
  have lo: "CI_lower r' = np_round (np_sub (np_sub (p_con_hat r) (p_exp_hat r)) (np_mul (SE r) (Z_crit r))) 3"
    by (simp add: r_def r'_def z_test_def Let_def add.commute np_add_commute)
  have hi: "CI_upper r' = np_round (np_add (np_sub (p_con_hat r) (p_exp_hat r)) (np_mul (SE r) (Z_crit r))) 3"
    by (simp add: r_def r'_def z_test_def Let_def add.commute np_add_commute)
  have hi0: "CI_upper r = np_round (np_add (np_sub (p_exp_hat r) (p_con_hat r)) (np_mul (SE r) (Z_crit r))) 3"
    by (simp add: r_def z_test_def Let_def)
  have lo0: "CI_lower r = np_round (np_sub (np_sub (p_exp_hat r) (p_con_hat r)) (np_mul (SE r) (Z_crit r))) 3"
    by (simp add: r_def z_test_def Let_def)
  show "CI_lower r' = np_neg (CI_upper r)"
    unfolding lo hi0 np_round_neg [symmetric] np_neg_add np_sub_def
    by (simp add: np_neg_add np_add_commute)
  show "CI_upper r' = np_neg (CI_lower r)"
    unfolding hi lo0 np_round_neg [symmetric] np_neg_add np_sub_def
    by (simp add: np_neg_add np_add_commute)
  show "significant r' = significant r"
    using pv by (simp add: r_def r'_def z_test_def Let_def)
qed


lemma approach1_present:
  assumes "counts_frame ''con'' = Some con" "counts_frame ''exp'' = Some ex"
  shows "approach1 nd alpha delta counts_frame
           = Inr (z_test nd alpha delta (click con) (users con) (click ex) (users ex))"
  using assms by (simp add: approach1_def loc_def)

lemma approach1_InrD:
  assumes "approach1 nd alpha delta counts_frame = Inr r"
  shows "\<exists>con ex. counts_frame ''con'' = Some con \<and> counts_frame ''exp'' = Some ex \<and>
           r = z_test nd alpha delta (click con) (users con) (click ex) (users ex)"
  using assms by (auto simp: approach1_def loc_def split: option.splits)

lemma z_test_finite:
  fixes nd alpha delta X_con N_con X_exp N_exp
  defines "r \<equiv> z_test nd alpha delta X_con N_con X_exp N_exp"
      and "pr \<equiv> real_of_int (X_con + X_exp) / real (N_con + N_exp)"
  assumes "0 < N_con" "0 < N_exp"
  shows "p_con_hat r = Fin (real_of_int X_con / real N_con)"
    and "p_exp_hat r = Fin (real_of_int X_exp / real N_exp)"
    and "p_pooled_hat r = Fin pr"
    and "pooled_variance r = Fin (pr * (1 - pr) * (1 / real N_con + 1 / real N_exp))"
  using assms(3,4) by (simp_all add: r_def pr_def z_test_def Let_def np_sub_def)

lemma z_test_SE: "SE (z_test nd alpha delta X_con N_con X_exp N_exp)
    = np_sqrt (pooled_variance (z_test nd alpha delta X_con N_con X_exp N_exp))"
  by (simp add: z_test_def Let_def)

lemma z_test_Test_stat: "Test_stat (z_test nd alpha delta X_con N_con X_exp N_exp)
    = np_div (np_sub (p_con_hat (z_test nd alpha delta X_con N_con X_exp N_exp))
                     (p_exp_hat (z_test nd alpha delta X_con N_con X_exp N_exp)))
             (SE (z_test nd alpha delta X_con N_con X_exp N_exp))"
  by (simp add: z_test_def Let_def)

text \<open>
  Claim C1. For two groups with positive user counts the run returns, and its pooled rate is
  \<open>(clicks_con + clicks_exp) / (users_con + users_exp)\<close>, its pooled variance is
  \<open>pooled_rate * (1 - pooled_rate) * (1 / users_con + 1 / users_exp)\<close>, its standard error
  is the square root of the pooled variance and its statistic is the control rate minus the
  experimental rate, divided by the standard error. Where the variance is positive these
  are the real numbers that the formulas give.
\<close>

theorem pooled_z_test_formulas:
  assumes "counts_frame ''con'' = Some con" and "counts_frame ''exp'' = Some ex"
    and "0 < users con" and "0 < users ex"
  shows "\<exists>r. approach1 nd alpha delta counts_frame = Inr r \<and>
    (let rate_con = real_of_int (click con) / real (users con);
         rate_exp = real_of_int (click ex) / real (users ex);
         pooled_rate = real_of_int (click con + click ex) / real (users con + users ex);
         pooled_var = pooled_rate * (1 - pooled_rate) * (1 / real (users con) + 1 / real (users ex))
     in p_con_hat r = Fin rate_con \<and> p_exp_hat r = Fin rate_exp \<and>
        p_pooled_hat r = Fin pooled_rate \<and>
        pooled_variance r = Fin pooled_var \<and>
        SE r = np_sqrt (Fin pooled_var) \<and>
        Test_stat r = np_div (Fin (rate_con - rate_exp)) (SE r) \<and>
        (0 < pooled_var \<longrightarrow>
           SE r = Fin (sqrt pooled_var) \<and>
           Test_stat r = Fin ((rate_con - rate_exp) / sqrt pooled_var)))"
proof -
  let ?r = "z_test nd alpha delta (click con) (users con) (click ex) (users ex)"
  note fin = z_test_finite [OF assms(3,4), of nd alpha delta "click con" "click ex"]
  have run: "approach1 nd alpha delta counts_frame = Inr ?r"
    by (rule approach1_present [OF assms(1,2)])
  have se: "SE ?r = np_sqrt (pooled_variance ?r)" by (rule z_test_SE)
  have ts: "Test_stat ?r = np_div (np_sub (p_con_hat ?r) (p_exp_hat ?r)) (SE ?r)"
    by (rule z_test_Test_stat)
  show ?thesis
    unfolding run Let_def
    by (rule exI [of _ ?r]) (simp add: fin se ts np_sub_def)
qed

theorem pooled_z_test_formulas_witness:
  "frame_of \<lparr>users = 40000, click = 1580\<rparr> \<lparr>users = 40000, click = 1850\<rparr> ''con''
     = Some \<lparr>users = 40000, click = 1580\<rparr> \<and>
   frame_of \<lparr>users = 40000, click = 1580\<rparr> \<lparr>users = 40000, click = 1850\<rparr> ''exp''
     = Some \<lparr>users = 40000, click = 1850\<rparr> \<and>
   0 < users \<lparr>users = 40000, click = 1580\<rparr> \<and> 0 < users \<lparr>users = 40000, click = 1850\<rparr> \<and>
   (\<exists>r. approach1 scipy_norm (5 / 100) (1 / 10)
          (frame_of \<lparr>users = 40000, click = 1580\<rparr> \<lparr>users = 40000, click = 1850\<rparr>) = Inr r \<and>
        p_con_hat r = Fin (395 / 10000) \<and> p_exp_hat r = Fin (4625 / 100000) \<and>
        p_pooled_hat r = Fin (42875 / 1000000) \<and>
        pooled_variance r = Fin (42875 / 1000000 * (957125 / 1000000) * (1 / 20000)) \<and>
        SE r = Fin (sqrt (42875 / 1000000 * (957125 / 1000000) * (1 / 20000))) \<and>
        Test_stat r = Fin ((- 675 / 100000) / sqrt (42875 / 1000000 * (957125 / 1000000) * (1 / 20000))))"
proof -
  let ?c = "\<lparr>users = 40000, click = 1580\<rparr>" and ?e = "\<lparr>users = 40000, click = 1850\<rparr>"
  have h: "frame_of ?c ?e ''con'' = Some ?c" "frame_of ?c ?e ''exp'' = Some ?e"
    "0 < users ?c" "0 < users ?e"
    by (simp_all add: frame_of_def)
  from pooled_z_test_formulas [OF h, of scipy_norm "5 / 100" "1 / 10"]
  show ?thesis using h by (auto simp: Let_def)
qed

section \<open>Swapping the two groups\<close>

text \<open>
  Claim C8. Running the test with the control and the experimental group exchanged negates
  the statistic and mirrors the confidence interval about zero (the new lower bound is the
  old upper bound negated, the new upper bound the old lower bound negated); the p-value,
  the critical value, the standard error and the verdict on significance are unchanged.
  This holds for all counts and every \<open>alpha\<close>, also where a value is \<open>inf\<close> or \<open>nan\<close>.
\<close>

theorem swap_control_experimental:
  "\<exists>r r'. approach1 nd alpha delta (frame_of con ex) = Inr r \<and>
          approach1 nd alpha delta (frame_of ex con) = Inr r' \<and>
          Test_stat r' = np_neg (Test_stat r) \<and>
          CI_lower r' = np_neg (CI_upper r) \<and>
          CI_upper r' = np_neg (CI_lower r) \<and>
          p_value r' = p_value r \<and>
          Z_crit r' = Z_crit r \<and>
          SE r' = SE r \<and>
          significant r' = significant r"
proof -
  let ?r = "z_test nd alpha delta (click con) (users con) (click ex) (users ex)"
  let ?r' = "z_test nd alpha delta (click ex) (users ex) (click con) (users con)"
  have "approach1 nd alpha delta (frame_of con ex) = Inr ?r"
    and "approach1 nd alpha delta (frame_of ex con) = Inr ?r'"
    by (rule approach1_frame_of)+
  moreover have "Test_stat ?r' = np_neg (Test_stat ?r)" by (rule z_test_swap)
  moreover have "CI_lower ?r' = np_neg (CI_upper ?r)" by (rule z_test_swap)
  moreover have "CI_upper ?r' = np_neg (CI_lower ?r)" by (rule z_test_swap)
  moreover have "p_value ?r' = p_value ?r" by (rule z_test_swap)
  moreover have "Z_crit ?r' = Z_crit ?r" by (rule z_test_swap)
  moreover have "SE ?r' = SE ?r" by (rule z_test_swap)
  moreover have "significant ?r' = significant ?r" by (rule z_test_swap)
  ultimately show ?thesis by blast
qed

section \<open>The p-value and the verdict on significance\<close>

lemma norm_sf_cdf:
  assumes "\<forall>x. sf nd x = 1 - cdf nd x"
  shows "norm_sf nd v = np_sub (Fin 1) (norm_cdf nd v)"
  using assms by (cases v) (simp_all add: np_sub_def)

text \<open>
  Claim C2. With scipy's survival function being one minus its distribution function, every
  run that returns has \<open>p_value = 2 * (1 - cdf \<bar>Test_stat\<bar>)\<close>, and it is reported as
  significant exactly when \<open>p_value \<le> alpha\<close>.
\<close>

theorem p_value_and_decision:
  assumes "\<forall>x. sf nd x = 1 - cdf nd x"
    and "approach1 nd alpha delta counts_frame = Inr r"
  shows "p_value r = np_mul (Fin 2) (np_sub (Fin 1) (norm_cdf nd (np_abs (Test_stat r)))) \<and>
         (significant r \<longleftrightarrow> np_le (p_value r) (Fin alpha)) \<and>
         (\<forall>z. Test_stat r = Fin z \<longrightarrow>
            p_value r = Fin (2 * (1 - cdf nd \<bar>z\<bar>)) \<and>
            (significant r \<longleftrightarrow> 2 * (1 - cdf nd \<bar>z\<bar>) \<le> alpha))"
proof -
  from approach1_InrD [OF assms(2)] obtain con ex :: counts where
    r: "r = z_test nd alpha delta (click con) (users con) (click ex) (users ex)"
    by blast
  have p: "p_value r = np_mul (Fin 2) (norm_sf nd (np_abs (Test_stat r)))"
    by (simp add: r z_test_def Let_def)
  have s: "significant r \<longleftrightarrow> np_le (p_value r) (Fin alpha)"
    by (simp add: r z_test_def Let_def)
  have p': "p_value r = np_mul (Fin 2) (np_sub (Fin 1) (norm_cdf nd (np_abs (Test_stat r))))"
    unfolding p norm_sf_cdf [OF assms(1)] ..
  show ?thesis
    using s p' by (auto simp: np_sub_def)
qed

theorem p_value_and_decision_witness:
  "(\<forall>x. sf scipy_norm x = 1 - cdf scipy_norm x) \<and>
   approach1 scipy_norm (5 / 100) (1 / 10)
       (frame_of \<lparr>users = 10, click = 3\<rparr> \<lparr>users = 10, click = 3\<rparr>)
     = Inr (z_test scipy_norm (5 / 100) (1 / 10) 3 10 3 10) \<and>
   Test_stat (z_test scipy_norm (5 / 100) (1 / 10) 3 10 3 10) = Fin 0 \<and>
   p_value (z_test scipy_norm (5 / 100) (1 / 10) 3 10 3 10)
     = Fin (2 * (1 - cdf scipy_norm \<bar>0\<bar>)) \<and>
   significant (z_test scipy_norm (5 / 100) (1 / 10) 3 10 3 10)
     = (2 * (1 - cdf scipy_norm \<bar>0\<bar>) \<le> 5 / 100)"
proof -
  let ?r = "z_test scipy_norm (5 / 100) (1 / 10) 3 10 3 10"
  have h1: "\<forall>x. sf scipy_norm x = 1 - cdf scipy_norm x"
    by (simp add: scipy_norm_def)
  have h2: "approach1 scipy_norm (5 / 100) (1 / 10)
       (frame_of \<lparr>users = 10, click = 3\<rparr> \<lparr>users = 10, click = 3\<rparr>) = Inr ?r"
    by (simp add: approach1_frame_of)
  have z: "Test_stat ?r = Fin 0"
    by (simp add: z_test_def Let_def np_sub_def)
  from p_value_and_decision [OF h1 h2] z h1 h2 show ?thesis
    by blast
qed

section \<open>Two equal groups\<close>

lemma z_test_equal_groups:
  assumes "0 < X" and "X < int N"
  shows "Test_stat (z_test nd alpha delta X N X N) = Fin 0"
proof -
  let ?r = "z_test nd alpha delta X N X N"
  define q where "q = real_of_int (X + X) / real (N + N)"
  define v where "v = q * (1 - q) * (1 / real N + 1 / real N)"
  from assms have N: "0 < N" by linarith
  have "q = real_of_int X / real N" by (simp add: q_def)
  with assms N have "0 < q" "q < 1" by simp_all
  then have "0 < q * (1 - q)" by simp
  moreover from N have "0 < 1 / real N + 1 / real N" by simp
  ultimately have pos: "0 < v"
    unfolding v_def by (rule mult_pos_pos)
  have "pooled_variance ?r = Fin v"
    unfolding v_def q_def by (rule z_test_finite(4) [OF N N])
  then have "SE ?r = np_sqrt (Fin v)"
    by (simp add: z_test_SE)
  with pos have se: "SE ?r = Fin (sqrt v)"
    by simp
  from pos have "sqrt v \<noteq> 0"
    by simp
  then show ?thesis
    unfolding z_test_Test_stat se z_test_finite(1,2) [OF N N]
    by (simp add: np_sub_def)
qed

text \<open>
  Claim C9, as amended. Two groups with the same user count and the same click count, the
  clicks strictly between zero and the users, give \<open>Test_stat = 0\<close> and \<open>p_value = 1\<close>,
  and the result is not significant at any \<open>alpha < 1\<close>. (\<open>sf 0 = 1 / 2\<close> is the value of
  scipy's survival function at zero.)
\<close>

theorem equal_groups:
  assumes "sf nd 0 = 1 / 2" and "0 < X" and "X < int N" and "alpha < 1"
  shows "\<exists>r. approach1 nd alpha delta
               (frame_of \<lparr>users = N, click = X\<rparr> \<lparr>users = N, click = X\<rparr>) = Inr r \<and>
             Test_stat r = Fin 0 \<and> p_value r = Fin 1 \<and> \<not> significant r"
proof -
  let ?r = "z_test nd alpha delta X N X N"
  have run: "approach1 nd alpha delta
               (frame_of \<lparr>users = N, click = X\<rparr> \<lparr>users = N, click = X\<rparr>) = Inr ?r"
    by (simp add: approach1_frame_of)
  have z: "Test_stat ?r = Fin 0"
    by (rule z_test_equal_groups [OF assms(2,3)])
  have "p_value ?r = np_mul (Fin 2) (norm_sf nd (np_abs (Test_stat ?r)))"
    by (simp add: z_test_def Let_def)
  then have p: "p_value ?r = Fin 1"
    unfolding z by (simp add: assms(1))
  have "significant ?r \<longleftrightarrow> np_le (p_value ?r) (Fin alpha)"
    by (simp add: z_test_def Let_def)
  then have s: "\<not> significant ?r"
    unfolding p using assms(4) by simp
  from run z p s show ?thesis by blast
qed

theorem equal_groups_witness:
  "sf scipy_norm 0 = 1 / 2 \<and> (0::int) < 3 \<and> (3::int) < int 10 \<and> (5 / 100 :: real) < 1 \<and>
   (\<exists>r. approach1 scipy_norm (5 / 100) (1 / 10)
          (frame_of \<lparr>users = 10, click = 3\<rparr> \<lparr>users = 10, click = 3\<rparr>) = Inr r \<and>
        Test_stat r = Fin 0 \<and> p_value r = Fin 1 \<and> \<not> significant r)"
proof -
  have h: "sf scipy_norm 0 = 1 / 2" "(0::int) < 3" "(3::int) < int 10" "(5 / 100 :: real) < 1"
    by (simp_all add: scipy_norm_def)
  from equal_groups [OF h, of "1 / 10"] h show ?thesis by blast
qed

theorem equal_groups_counterexample:
  "map_sum id Test_stat (approach1 scipy_norm (5 / 100) (1 / 10)
      (frame_of \<lparr>users = 10, click = 0\<rparr> \<lparr>users = 10, click = 0\<rparr>)) = Inr NaN \<and>
   map_sum id p_value (approach1 scipy_norm (5 / 100) (1 / 10)
      (frame_of \<lparr>users = 10, click = 0\<rparr> \<lparr>users = 10, click = 0\<rparr>)) = Inr NaN"
  by (simp add: approach1_frame_of z_test_def Let_def np_sub_def)

section \<open>A standard error of zero\<close>

lemma np_sqrt_zero_iff: "np_sqrt (Fin v) = Fin 0 \<longleftrightarrow> v = 0"
  by simp

lemma np_div_zero:
  "np_div (Fin a) (Fin 0) = (if a = 0 then NaN else if 0 < a then PInf else NInf)"
  by simp

lemma z_test_p_value: "p_value (z_test nd alpha delta X_con N_con X_exp N_exp)
    = np_mul (Fin 2) (norm_sf nd (np_abs (Test_stat (z_test nd alpha delta X_con N_con X_exp N_exp))))"
  by (simp add: z_test_def Let_def)

lemma z_test_significant: "significant (z_test nd alpha delta X_con N_con X_exp N_exp)
    \<longleftrightarrow> np_le (p_value (z_test nd alpha delta X_con N_con X_exp N_exp)) (Fin alpha)"
  by (simp add: z_test_def Let_def)

lemma pooled_rate_degenerate:
  fixes X_con X_exp :: int and N_con N_exp :: nat
  assumes "0 < N_con" "0 < N_exp"
    and "0 \<le> X_con" "X_con \<le> int N_con" "0 \<le> X_exp" "X_exp \<le> int N_exp"
    and "real_of_int (X_con + X_exp) / real (N_con + N_exp) = 0 \<or>
         real_of_int (X_con + X_exp) / real (N_con + N_exp) = 1"
  shows "real_of_int X_con / real N_con = real_of_int X_exp / real N_exp"
proof -
  from assms(7) show ?thesis
  proof
    assume "real_of_int (X_con + X_exp) / real (N_con + N_exp) = 0"
    with assms(1,2) have "X_con + X_exp = 0" by simp
    with assms(3,5) have "X_con = 0" "X_exp = 0" by linarith+
    then show ?thesis by simp
  next
    assume "real_of_int (X_con + X_exp) / real (N_con + N_exp) = 1"
    with assms(1,2) have "real_of_int (X_con + X_exp) = real (N_con + N_exp)" by simp
    then have "X_con + X_exp = int N_con + int N_exp" by linarith
    with assms(4,6) have "X_con = int N_con" "X_exp = int N_exp" by linarith+
    with assms(1,2) show ?thesis by simp
  qed
qed


lemma z_test_zero_SE:
  fixes nd alpha delta X_con N_con X_exp N_exp
  defines "r \<equiv> z_test nd alpha delta X_con N_con X_exp N_exp"
      and "rc \<equiv> real_of_int X_con / real N_con"
      and "re \<equiv> real_of_int X_exp / real N_exp"
      and "pr \<equiv> real_of_int (X_con + X_exp) / real (N_con + N_exp)"
  assumes N: "0 < N_con" "0 < N_exp"
  shows "SE r = Fin 0 \<longleftrightarrow> pr = 0 \<or> pr = 1"
    and "SE r = Fin 0 \<Longrightarrow>
           Test_stat r = (if rc = re then NaN else if re < rc then PInf else NInf)"
    and "SE r = Fin 0 \<Longrightarrow> p_value r = (if rc = re then NaN else Fin 0)"
proof -
  define c where "c = 1 / real N_con + 1 / real N_exp"
  from N have c: "0 < c" by (simp add: c_def add_pos_pos)
  have pv: "pooled_variance r = Fin (pr * (1 - pr) * c)"
    unfolding r_def pr_def c_def by (rule z_test_finite(4) [OF N])
  have se: "SE r = np_sqrt (Fin (pr * (1 - pr) * c))"
    unfolding r_def z_test_SE pv [unfolded r_def] ..
  show iff: "SE r = Fin 0 \<longleftrightarrow> pr = 0 \<or> pr = 1"
    unfolding se np_sqrt_zero_iff using c by auto
  have ts: "Test_stat r = np_div (Fin (rc - re)) (SE r)"
    unfolding r_def rc_def re_def z_test_Test_stat z_test_finite(1,2) [OF N]
    by (simp add: np_sub_def)
  show t: "Test_stat r = (if rc = re then NaN else if re < rc then PInf else NInf)"
    if "SE r = Fin 0"
    unfolding ts that np_div_zero by simp
  show "p_value r = (if rc = re then NaN else Fin 0)" if "SE r = Fin 0"
    unfolding r_def z_test_p_value t [OF that, unfolded r_def] by simp
qed

text \<open>
  Claim C3, as amended. With positive user counts the standard error is zero exactly when
  the pooled rate is 0 or 1, and then no error is raised: the run returns with
  \<open>Test_stat = nan\<close> and \<open>p_value = nan\<close> when the two rates are equal, and with
  \<open>Test_stat = inf\<close> or \<open>-inf\<close> and \<open>p_value = 0\<close> when they differ. For click counts
  between zero and the user counts the rates are equal, so the values are \<open>nan\<close> and the
  result is reported as not significant.
\<close>

theorem zero_standard_error:
  assumes "counts_frame ''con'' = Some con" and "counts_frame ''exp'' = Some ex"
    and "0 < users con" and "0 < users ex"
  shows "\<exists>r. approach1 nd alpha delta counts_frame = Inr r \<and>
    (let rate_con = real_of_int (click con) / real (users con);
         rate_exp = real_of_int (click ex) / real (users ex)
     in (SE r = Fin 0 \<longleftrightarrow> p_pooled_hat r = Fin 0 \<or> p_pooled_hat r = Fin 1) \<and>
        (SE r = Fin 0 \<longrightarrow>
           Test_stat r = (if rate_con = rate_exp then NaN
                          else if rate_exp < rate_con then PInf else NInf) \<and>
           p_value r = (if rate_con = rate_exp then NaN else Fin 0)) \<and>
        (SE r = Fin 0 \<and> 0 \<le> click con \<and> click con \<le> int (users con) \<and>
           0 \<le> click ex \<and> click ex \<le> int (users ex) \<longrightarrow>
           Test_stat r = NaN \<and> p_value r = NaN \<and> \<not> significant r))"
proof -
  let ?r = "z_test nd alpha delta (click con) (users con) (click ex) (users ex)"
  let ?rc = "real_of_int (click con) / real (users con)"
  let ?re = "real_of_int (click ex) / real (users ex)"
  let ?pr = "real_of_int (click con + click ex) / real (users con + users ex)"
  note N = assms(3,4)
  have run: "approach1 nd alpha delta counts_frame = Inr ?r"
    by (rule approach1_present [OF assms(1,2)])
  have pp: "p_pooled_hat ?r = Fin ?pr"
    by (rule z_test_finite(3) [OF N])
  have iff: "SE ?r = Fin 0 \<longleftrightarrow> p_pooled_hat ?r = Fin 0 \<or> p_pooled_hat ?r = Fin 1"
    unfolding pp z_test_zero_SE(1) [OF N] by simp
  have ts: "Test_stat ?r = (if ?rc = ?re then NaN else if ?re < ?rc then PInf else NInf)"
    and pv: "p_value ?r = (if ?rc = ?re then NaN else Fin 0)"
    if "SE ?r = Fin 0"
    using that by (rule z_test_zero_SE(2,3) [OF N])+
  have valid: "Test_stat ?r = NaN \<and> p_value ?r = NaN \<and> \<not> significant ?r"
    if se: "SE ?r = Fin 0"
      and v: "0 \<le> click con" "click con \<le> int (users con)"
             "0 \<le> click ex" "click ex \<le> int (users ex)"
  proof -
    from se have "?pr = 0 \<or> ?pr = 1"
      unfolding z_test_zero_SE(1) [OF N] .
    then have "?rc = ?re"
      by (rule pooled_rate_degenerate [OF N v])
    with ts [OF se] pv [OF se] have "Test_stat ?r = NaN" "p_value ?r = NaN"
      by simp_all
    then show ?thesis
      by (simp add: z_test_significant)
  qed
  show ?thesis
    unfolding run Let_def
    using iff ts pv valid by (intro exI [of _ ?r]) blast
qed

theorem zero_standard_error_witness:
  "frame_of \<lparr>users = 40000, click = 0\<rparr> \<lparr>users = 40000, click = 0\<rparr> ''con''
     = Some \<lparr>users = 40000, click = 0\<rparr> \<and>
   frame_of \<lparr>users = 40000, click = 0\<rparr> \<lparr>users = 40000, click = 0\<rparr> ''exp''
     = Some \<lparr>users = 40000, click = 0\<rparr> \<and>
   0 < users \<lparr>users = 40000, click = 0\<rparr> \<and>
   (\<exists>r. approach1 scipy_norm (5 / 100) (1 / 10)
          (frame_of \<lparr>users = 40000, click = 0\<rparr> \<lparr>users = 40000, click = 0\<rparr>) = Inr r \<and>
        SE r = Fin 0 \<and> p_pooled_hat r = Fin 0 \<and>
        Test_stat r = NaN \<and> p_value r = NaN \<and> \<not> significant r)"
proof -
  let ?c = "\<lparr>users = 40000, click = 0\<rparr>"
  have h: "frame_of ?c ?c ''con'' = Some ?c" "frame_of ?c ?c ''exp'' = Some ?c"
    "0 < users ?c" "0 < users ?c"
    by (simp_all add: frame_of_def)
  from zero_standard_error [OF h, of scipy_norm "5 / 100" "1 / 10"]
  obtain r where r: "approach1 scipy_norm (5 / 100) (1 / 10) (frame_of ?c ?c) = Inr r"
    and iff: "SE r = Fin 0 \<longleftrightarrow> p_pooled_hat r = Fin 0 \<or> p_pooled_hat r = Fin 1"
    and v: "SE r = Fin 0 \<and> (0::int) \<le> click ?c \<and> click ?c \<le> int (users ?c) \<and>
           (0::int) \<le> click ?c \<and> click ?c \<le> int (users ?c) \<longrightarrow>
           Test_stat r = NaN \<and> p_value r = NaN \<and> \<not> significant r"
    unfolding Let_def by blast
  from r have "r = z_test scipy_norm (5 / 100) (1 / 10) 0 40000 0 40000"
    by (simp add: approach1_frame_of)
  then have pp: "p_pooled_hat r = Fin 0"
    by (simp add: z_test_def Let_def)
  with iff have se: "SE r = Fin 0" by simp
  with v have "Test_stat r = NaN \<and> p_value r = NaN \<and> \<not> significant r" by simp
  with r se pp h show ?thesis by blast
qed

theorem zero_standard_error_counterexample:
  "map_sum id SE (approach1 scipy_norm (5 / 100) (1 / 10)
      (frame_of \<lparr>users = 40000, click = 0\<rparr> \<lparr>users = 40000, click = 0\<rparr>)) = Inr (Fin 0) \<and>
   map_sum id Test_stat (approach1 scipy_norm (5 / 100) (1 / 10)
      (frame_of \<lparr>users = 40000, click = 0\<rparr> \<lparr>users = 40000, click = 0\<rparr>)) = Inr NaN \<and>
   map_sum id p_value (approach1 scipy_norm (5 / 100) (1 / 10)
      (frame_of \<lparr>users = 40000, click = 0\<rparr> \<lparr>users = 40000, click = 0\<rparr>)) = Inr NaN \<and>
   map_sum id significant (approach1 scipy_norm (5 / 100) (1 / 10)
      (frame_of \<lparr>users = 40000, click = 0\<rparr> \<lparr>users = 40000, click = 0\<rparr>)) = Inr False"
  by (simp add: approach1_frame_of z_test_def Let_def np_sub_def)

section \<open>The confidence interval\<close>

lemma rint_eqI:
  assumes "of_int n - 1 / 2 < x" and "x < of_int n + 1 / 2"
  shows "rint x = n"
proof -
  have "of_int \<lfloor>x\<rfloor> \<le> x" "x < of_int \<lfloor>x\<rfloor> + 1" by linarith+
  with assms have "\<lfloor>x\<rfloor> = n \<or> \<lfloor>x\<rfloor> = n - 1" by linarith
  then show ?thesis
  proof
    assume f: "\<lfloor>x\<rfloor> = n"
    with assms show ?thesis by (simp add: rint_def Let_def)
  next
    assume f: "\<lfloor>x\<rfloor> = n - 1"
    with assms show ?thesis by (simp add: rint_def Let_def)
  qed
qed

lemma z_test_CI:
  fixes nd alpha delta X_con N_con X_exp N_exp
  defines "r \<equiv> z_test nd alpha delta X_con N_con X_exp N_exp"
  shows "CI_lower r = np_round (unrounded_lower r) 3"
    and "CI_upper r = np_round (unrounded_upper r) 3"
    and "practically_significant r \<longleftrightarrow> np_ge (CI_lower r) (Fin delta)"
  by (simp_all add: r_def z_test_def Let_def unrounded_lower_def unrounded_upper_def)

lemma np_round_error:
  assumes "np_ge (np_round v 3) (Fin t) \<noteq> np_ge v (Fin t)"
  shows "\<exists>e. v = Fin e \<and> \<bar>e - t\<bar> \<le> 5 / 10000"
proof (cases v)
  case (Fin e)
  define k where "k = real_of_int (rint (e * 1000)) / 1000"
  have "\<bar>real_of_int (rint (e * 1000)) - e * 1000\<bar> \<le> 1 / 2" by (rule rint_error)
  then have close: "\<bar>k - e\<bar> \<le> 5 / 10000"
    unfolding k_def by (simp add: field_simps abs_le_iff)
  from assms Fin have "(t \<le> k) \<noteq> (t \<le> e)"
    by (simp add: np_ge_def k_def)
  with close have "\<bar>e - t\<bar> \<le> 5 / 10000" by linarith
  with Fin show ?thesis by simp
qed (use assms in simp_all)


lemma z_test_Z_crit: "Z_crit (z_test nd alpha delta X_con N_con X_exp N_exp)
    = norm_ppf nd (Fin (1 - alpha / 2))"
  by (simp add: z_test_def Let_def)

lemma pooled_variance_nonneg:
  fixes X_con X_exp :: int and N_con N_exp :: nat
  assumes "0 < N_con" "0 < N_exp"
    and "0 \<le> X_con" "X_con \<le> int N_con" "0 \<le> X_exp" "X_exp \<le> int N_exp"
  defines "pr \<equiv> real_of_int (X_con + X_exp) / real (N_con + N_exp)"
  shows "0 \<le> pr * (1 - pr) * (1 / real N_con + 1 / real N_exp)"
proof -
  from assms(1-6) have "0 \<le> pr" "pr \<le> 1"
    unfolding pr_def by simp_all
  then have "0 \<le> pr * (1 - pr)" by simp
  moreover have "0 \<le> 1 / real N_con + 1 / real N_exp" by simp
  ultimately show ?thesis by (rule mult_nonneg_nonneg)
qed

lemma z_test_unrounded:
  fixes nd alpha delta X_con N_con X_exp N_exp
  defines "r \<equiv> z_test nd alpha delta X_con N_con X_exp N_exp"
      and "pr \<equiv> real_of_int (X_con + X_exp) / real (N_con + N_exp)"
      and "diff \<equiv> real_of_int X_exp / real N_exp - real_of_int X_con / real N_con"
  defines "se \<equiv> sqrt (pr * (1 - pr) * (1 / real N_con + 1 / real N_exp))"
  assumes "0 < N_con" "0 < N_exp"
    and "0 \<le> X_con" "X_con \<le> int N_con" "0 \<le> X_exp" "X_exp \<le> int N_exp"
    and "0 < alpha" "alpha < 1"
  shows "SE r = Fin se"
    and "Z_crit r = Fin (ppf nd (1 - alpha / 2))"
    and "unrounded_lower r = Fin (diff - se * ppf nd (1 - alpha / 2))"
    and "unrounded_upper r = Fin (diff + se * ppf nd (1 - alpha / 2))"
proof -
  note N = assms(5,6)
  have "0 \<le> pr * (1 - pr) * (1 / real N_con + 1 / real N_exp)"
    unfolding pr_def by (rule pooled_variance_nonneg [OF assms(5-10)])
  moreover have "pooled_variance r = Fin (pr * (1 - pr) * (1 / real N_con + 1 / real N_exp))"
    unfolding r_def pr_def by (rule z_test_finite(4) [OF N])
  ultimately show se: "SE r = Fin se"
    unfolding r_def se_def by (simp add: z_test_SE)
  from assms(11,12) show zc: "Z_crit r = Fin (ppf nd (1 - alpha / 2))"
    unfolding r_def by (simp add: z_test_Z_crit)
  have rates: "p_con_hat r = Fin (real_of_int X_con / real N_con)"
    "p_exp_hat r = Fin (real_of_int X_exp / real N_exp)"
    unfolding r_def by (rule z_test_finite(1,2) [OF N])+
  show "unrounded_lower r = Fin (diff - se * ppf nd (1 - alpha / 2))"
    unfolding unrounded_lower_def se zc rates diff_def by (simp add: np_sub_def)
  show "unrounded_upper r = Fin (diff + se * ppf nd (1 - alpha / 2))"
    unfolding unrounded_upper_def se zc rates diff_def by (simp add: np_sub_def)
qed

text \<open>
  Claim C4, as amended. For two groups with positive user counts and click counts between
  zero and the user counts, and \<open>0 < alpha < 1\<close>, the bounds of the interval are
  \<open>(rate_exp - rate_con) - standard_error * z_critical\<close> and
  \<open>(rate_exp - rate_con) + standard_error * z_critical\<close>, each rounded to three decimal
  places, with the standard error and the critical value of the pooled test; the verdict
  on practical significance is that the rounded lower bound is at least \<open>delta\<close>.
\<close>

theorem confidence_interval:
  assumes "counts_frame ''con'' = Some con" and "counts_frame ''exp'' = Some ex"
    and "0 < users con" and "0 < users ex"
    and "0 \<le> click con" and "click con \<le> int (users con)"
    and "0 \<le> click ex" and "click ex \<le> int (users ex)"
    and "0 < alpha" and "alpha < 1"
  shows "\<exists>r. approach1 nd alpha delta counts_frame = Inr r \<and>
    (let diff = real_of_int (click ex) / real (users ex)
                  - real_of_int (click con) / real (users con);
         pooled_rate = real_of_int (click con + click ex) / real (users con + users ex);
         se = sqrt (pooled_rate * (1 - pooled_rate)
                      * (1 / real (users con) + 1 / real (users ex)));
         z = ppf nd (1 - alpha / 2);
         lower = real_of_int (rint ((diff - se * z) * 1000)) / 1000;
         upper = real_of_int (rint ((diff + se * z) * 1000)) / 1000
     in SE r = Fin se \<and> Z_crit r = Fin z \<and>
        CI_lower r = Fin lower \<and> CI_upper r = Fin upper \<and>
        (practically_significant r \<longleftrightarrow> delta \<le> lower))"
proof -
  let ?r = "z_test nd alpha delta (click con) (users con) (click ex) (users ex)"
  have run: "approach1 nd alpha delta counts_frame = Inr ?r"
    by (rule approach1_present [OF assms(1,2)])
  note u = z_test_unrounded [OF assms(3-10), of nd delta]
  have ps: "practically_significant ?r \<longleftrightarrow> np_ge (CI_lower ?r) (Fin delta)"
    by (rule z_test_CI)
  show ?thesis
    unfolding run Let_def
    by (rule exI [of _ ?r]) (simp add: ps z_test_CI(1,2) u np_ge_def)
qed

lemma scenario_sqrt:
  "143 / 100000 < sqrt (2626351 / 1280000000000)"
  "sqrt (2626351 / 1280000000000) < 1435 / 1000000"
  by (rule real_less_rsqrt, simp add: power2_eq_square)
     (rule real_less_lsqrt, simp_all add: power2_eq_square)

lemma scenario_interval:
  fixes s :: real
  assumes "143 / 100000 < s" "s < 1435 / 1000000"
  shows "rint ((4625 / 100000 - 395 / 10000 - s * (1959963984540054 / 10 ^ 15)) * 1000) = 4"
    and "rint ((4625 / 100000 - 395 / 10000 + s * (1959963984540054 / 10 ^ 15)) * 1000) = 10"
  using assms by (intro rint_eqI; simp)+

theorem confidence_interval_witness:
  "frame_of \<lparr>users = 40000, click = 1580\<rparr> \<lparr>users = 40000, click = 1850\<rparr> ''con''
     = Some \<lparr>users = 40000, click = 1580\<rparr> \<and>
   frame_of \<lparr>users = 40000, click = 1580\<rparr> \<lparr>users = 40000, click = 1850\<rparr> ''exp''
     = Some \<lparr>users = 40000, click = 1850\<rparr> \<and>
   (0::real) < 5 / 100 \<and> (5 / 100 :: real) < 1 \<and>
   (\<exists>r. approach1 scipy_norm (5 / 100) (1 / 10)
          (frame_of \<lparr>users = 40000, click = 1580\<rparr> \<lparr>users = 40000, click = 1850\<rparr>) = Inr r \<and>
        Z_crit r = Fin (1959963984540054 / 10 ^ 15) \<and>
        CI_lower r = Fin (4 / 1000) \<and> CI_upper r = Fin (10 / 1000) \<and>
        \<not> practically_significant r)"
proof -
  let ?c = "\<lparr>users = 40000, click = 1580\<rparr>" and ?e = "\<lparr>users = 40000, click = 1850\<rparr>"
  have h: "frame_of ?c ?e ''con'' = Some ?c" "frame_of ?c ?e ''exp'' = Some ?e"
    "0 < users ?c" "0 < users ?e" "0 \<le> click ?c" "click ?c \<le> int (users ?c)"
    "0 \<le> click ?e" "click ?e \<le> int (users ?e)" "0 < (5 / 100 :: real)" "(5 / 100 :: real) < 1"
    by (simp_all add: frame_of_def)
  have z: "ppf scipy_norm (1 - 5 / 100 / 2) = 1959963984540054 / 10 ^ 15"
    by (simp add: scipy_norm_def)
  have v: "real_of_int (click ?c + click ?e) / real (users ?c + users ?e)
             * (1 - real_of_int (click ?c + click ?e) / real (users ?c + users ?e))
             * (1 / real (users ?c) + 1 / real (users ?e)) = 2626351 / 1280000000000"
    by simp
  have d: "real_of_int (click ?e) / real (users ?e) - real_of_int (click ?c) / real (users ?c)
             = 4625 / 100000 - 395 / 10000"
    by simp
  from confidence_interval [OF h, of scipy_norm "1 / 10"]
  obtain r where run: "approach1 scipy_norm (5 / 100) (1 / 10) (frame_of ?c ?e) = Inr r"
    and zc: "Z_crit r = Fin (1959963984540054 / 10 ^ 15)"
    and lo: "CI_lower r = Fin (real_of_int (rint ((4625 / 100000 - 395 / 10000
               - sqrt (2626351 / 1280000000000) * (1959963984540054 / 10 ^ 15)) * 1000)) / 1000)"
    and hi: "CI_upper r = Fin (real_of_int (rint ((4625 / 100000 - 395 / 10000
               + sqrt (2626351 / 1280000000000) * (1959963984540054 / 10 ^ 15)) * 1000)) / 1000)"
    and ps: "practically_significant r \<longleftrightarrow>
               1 / 10 \<le> real_of_int (rint ((4625 / 100000 - 395 / 10000
               - sqrt (2626351 / 1280000000000) * (1959963984540054 / 10 ^ 15)) * 1000)) / 1000"
    unfolding Let_def z v d by blast
  note i = scenario_interval [OF scenario_sqrt]
  from lo hi ps have "CI_lower r = Fin (4 / 1000)" "CI_upper r = Fin (10 / 1000)"
    "\<not> practically_significant r"
    unfolding i by simp_all
  with run zc h show ?thesis by blast
qed


theorem confidence_interval_counterexample:
  "approach1 scipy_norm (5 / 100) (1 / 10)
      (frame_of \<lparr>users = 40000, click = 1580\<rparr> \<lparr>users = 40000, click = 1850\<rparr>)
     = Inr (z_test scipy_norm (5 / 100) (1 / 10) 1580 40000 1850 40000) \<and>
   CI_lower (z_test scipy_norm (5 / 100) (1 / 10) 1580 40000 1850 40000) = Fin (4 / 1000) \<and>
   np_lt (unrounded_lower (z_test scipy_norm (5 / 100) (1 / 10) 1580 40000 1850 40000))
         (Fin (395 / 100000))"
proof -
  let ?r = "z_test scipy_norm (5 / 100) (1 / 10) 1580 40000 1850 40000"
  have lo: "unrounded_lower ?r = Fin (4625 / 100000 - 395 / 10000
              - sqrt (2626351 / 1280000000000) * (1959963984540054 / 10 ^ 15))"
    using z_test_unrounded(3) [of 40000 40000 1580 1850 "5 / 100" scipy_norm "1 / 10"]
    by (simp add: scipy_norm_def)
  have "CI_lower ?r = np_round (unrounded_lower ?r) 3"
    by (rule z_test_CI)
  then have "CI_lower ?r = Fin (4 / 1000)"
    unfolding lo np_round.simps power3_eq_cube
    using scenario_interval(1) [OF scenario_sqrt] by simp
  moreover have "np_lt (unrounded_lower ?r) (Fin (395 / 100000))"
    unfolding lo using scenario_sqrt(1) by simp
  ultimately show ?thesis
    by (simp add: approach1_frame_of)
qed


section \<open>Rounding and the verdict on practical significance\<close>

text \<open>
  Claim C10. The bounds that a run produces are the unrounded bounds rounded to three
  decimal places, and the verdict on practical significance compares the rounded lower
  bound with \<open>delta\<close>. The verdict differs from the comparison of the unrounded lower bound
  with \<open>delta\<close> only where the two are within 0.0005 of each other.
\<close>

theorem rounded_lower_bound_decides:
  assumes "approach1 nd alpha delta counts_frame = Inr r"
  shows "CI_lower r = np_round (unrounded_lower r) 3 \<and>
         CI_upper r = np_round (unrounded_upper r) 3 \<and>
         (practically_significant r \<longleftrightarrow> np_ge (np_round (unrounded_lower r) 3) (Fin delta)) \<and>
         (practically_significant r \<noteq> np_ge (unrounded_lower r) (Fin delta) \<longrightarrow>
            (\<exists>e. unrounded_lower r = Fin e \<and> \<bar>e - delta\<bar> \<le> 5 / 10000))"
proof -
  from approach1_InrD [OF assms] obtain con ex :: counts where
    r: "r = z_test nd alpha delta (click con) (users con) (click ex) (users ex)"
    by blast
  have lo: "CI_lower r = np_round (unrounded_lower r) 3"
    and hi: "CI_upper r = np_round (unrounded_upper r) 3"
    and ps: "practically_significant r \<longleftrightarrow> np_ge (CI_lower r) (Fin delta)"
    unfolding r by (rule z_test_CI)+
  have "\<exists>e. unrounded_lower r = Fin e \<and> \<bar>e - delta\<bar> \<le> 5 / 10000"
    if "practically_significant r \<noteq> np_ge (unrounded_lower r) (Fin delta)"
    using that unfolding ps lo by (rule np_round_error)
  with lo hi ps show ?thesis by simp
qed

lemma sqrt_sixteenth: "sqrt (1 / 16) = 1 / 4"
  by (rule real_sqrt_unique) (simp_all add: power2_eq_square)

theorem rounded_lower_bound_decides_witness:
  "approach1 scipy_norm (5 / 100) (1 / 10)
       (frame_of \<lparr>users = 3, click = 1\<rparr> \<lparr>users = 13, click = 12\<rparr>)
     = Inr (z_test scipy_norm (5 / 100) (1 / 10) 1 3 12 13) \<and>
   CI_lower (z_test scipy_norm (5 / 100) (1 / 10) 1 3 12 13) = Fin (1 / 10) \<and>
   practically_significant (z_test scipy_norm (5 / 100) (1 / 10) 1 3 12 13) \<and>
   \<not> np_ge (unrounded_lower (z_test scipy_norm (5 / 100) (1 / 10) 1 3 12 13)) (Fin (1 / 10)) \<and>
   (\<exists>e. unrounded_lower (z_test scipy_norm (5 / 100) (1 / 10) 1 3 12 13) = Fin e \<and>
        \<bar>e - 1 / 10\<bar> \<le> 5 / 10000)"
proof -
  let ?r = "z_test scipy_norm (5 / 100) (1 / 10) 1 3 12 13"
  have run: "approach1 scipy_norm (5 / 100) (1 / 10)
       (frame_of \<lparr>users = 3, click = 1\<rparr> \<lparr>users = 13, click = 12\<rparr>) = Inr ?r"
    by (simp add: approach1_frame_of)
  have u: "unrounded_lower ?r = Fin (12 / 13 - 1 / 3 - 1 / 4 * (1959963984540054 / 10 ^ 15))"
    using z_test_unrounded(3) [of 3 13 1 12 "5 / 100" scipy_norm "1 / 10"]
    by (simp add: scipy_norm_def sqrt_sixteenth)
  have "rint ((12 / 13 - 1 / 3 - 1 / 4 * (1959963984540054 / 10 ^ 15)) * 1000) = 100"
    by (rule rint_eqI) simp_all
  then have rd: "np_round (unrounded_lower ?r) 3 = Fin (1 / 10)"
    unfolding u by simp
  have ex: "\<not> np_ge (unrounded_lower ?r) (Fin (1 / 10))"
    unfolding u by (simp add: np_ge_def)
  note t = rounded_lower_bound_decides [OF run]
  from t rd have lo: "CI_lower ?r = Fin (1 / 10)" by simp
  from t rd have ps: "practically_significant ?r" by (simp add: np_ge_def)
  from t ps ex have "\<exists>e. unrounded_lower ?r = Fin e \<and> \<bar>e - 1 / 10\<bar> \<le> 5 / 10000"
    by blast
  with run lo ps ex show ?thesis by blast
qed

section \<open>The aggregation checks nothing\<close>

lemma int64_id: "- (2 ^ 63) \<le> x \<Longrightarrow> x < 2 ^ 63 \<Longrightarrow> int64 x = x"
  by (simp add: int64_def)

lemma group_rows_empty: "group_rows df g = [] \<longleftrightarrow> g \<notin> group_col ` set df"
  by (auto simp: group_rows_def filter_empty_conv)

lemma dfCounts_None: "dfCounts df g = None \<longleftrightarrow> g \<notin> group_col ` set df"
  by (simp add: dfCounts_def Let_def group_rows_empty)

lemma dfCounts_Some:
  assumes "dfCounts df g = Some c"
  shows "users c = card {u \<in> user_id ` set (group_rows df g). u \<noteq> None}"
    and "click c = int64 (sum_list (map click_col (group_rows df g)))"
proof -
  from assms have c: "c = \<lparr>users = length (remdups (filter (\<lambda>u. u \<noteq> None)
                                      (map user_id (group_rows df g)))),
                  click = int64 (sum_list (map click_col (group_rows df g)))\<rparr>"
    by (auto simp: dfCounts_def Let_def split: if_splits)
  have "set (filter (\<lambda>u. u \<noteq> None) (map user_id (group_rows df g)))
          = {u \<in> user_id ` set (group_rows df g). u \<noteq> None}"
    by auto
  then show "users c = card {u \<in> user_id ` set (group_rows df g). u \<noteq> None}"
    by (simp add: c length_remdups_card_conv)
  show "click c = int64 (sum_list (map click_col (group_rows df g)))" by (simp add: c)
qed

lemma sum_list_binary:
  assumes "\<forall>x \<in> set xs. x = 0 \<or> x = (1::int)"
  shows "sum_list xs = int (length (filter (\<lambda>x. x = 1) xs))"
  using assms by (induction xs) auto


lemma dfCounts_binary:
  assumes "dfCounts df g = Some c"
    and "\<forall>r \<in> set (group_rows df g). click_col r = 0 \<or> click_col r = 1"
    and "length (group_rows df g) < 2 ^ 63"
  shows "click c = int (length (filter (\<lambda>r. click_col r = 1) (group_rows df g)))"
proof -
  let ?xs = "map click_col (group_rows df g)"
  from assms(2) have "\<forall>x \<in> set ?xs. x = 0 \<or> x = 1" by auto
  then have s: "sum_list ?xs = int (length (filter (\<lambda>x. x = 1) ?xs))"
    by (rule sum_list_binary)
  have "length (filter (\<lambda>x. x = 1) ?xs) \<le> length (group_rows df g)"
    using length_filter_le [of "\<lambda>x. x = 1" ?xs] by simp
  then have "length (filter (\<lambda>x. x = 1) ?xs) < 2 ^ 63"
    using assms(3) by (rule le_less_trans)
  then have "int (length (filter (\<lambda>x. x = 1) ?xs)) < 2 ^ 63"
    by simp
  then have "int64 (sum_list ?xs) = sum_list ?xs"
    unfolding s by (intro int64_id) simp_all
  moreover have "length (filter (\<lambda>x. x = 1) ?xs)
                   = length (filter (\<lambda>r. click_col r = 1) (group_rows df g))"
    by (simp add: filter_map comp_def)
  ultimately show ?thesis
    using dfCounts_Some(2) [OF assms(1)] s by simp
qed

text \<open>
  Claim C7, as amended. The aggregation compares nothing with anything. A group without
  rows gets no line. A group that occurs gets, as its users, the number of distinct user
  ids on its rows that are not missing and, as its clicks, the \<open>int64\<close> sum of its click
  column; for outcomes in \<open>{0, 1}\<close> that is the number of its rows with a click, which no
  check relates to the number of users.
\<close>

theorem aggregation_unchecked:
  "(dfCounts df g = None \<longleftrightarrow> g \<notin> group_col ` set df) \<and>
   (\<forall>c. dfCounts df g = Some c \<longrightarrow>
      users c = card {u \<in> user_id ` set (group_rows df g). u \<noteq> None} \<and>
      click c = int64 (sum_list (map click_col (group_rows df g))) \<and>
      ((\<forall>r \<in> set (group_rows df g). click_col r = 0 \<or> click_col r = 1) \<and>
       length (group_rows df g) < 2 ^ 63 \<longrightarrow>
         click c = int (length (filter (\<lambda>r. click_col r = 1) (group_rows df g)))))"
  using dfCounts_None [of df g] dfCounts_Some [of df g] dfCounts_binary [of df g]
  by blast

lemma df_dup_counts:
  "dfCounts df_dup ''con'' = Some \<lparr>users = 2, click = 3\<rparr>"
  "dfCounts df_dup ''exp'' = Some \<lparr>users = 2, click = 1\<rparr>"
  by (simp_all add: df_dup_def dfCounts_def group_rows_def int64_def)

theorem aggregation_unchecked_witness:
  "dfCounts df_dup ''con'' = Some \<lparr>users = 2, click = 3\<rparr> \<and>
   map click_col (group_rows df_dup ''con'') = [1, 1, 1, 0] \<and>
   length (group_rows df_dup ''con'') < 2 ^ 63 \<and>
   users \<lparr>users = 2, click = 3\<rparr>
     = card {u \<in> user_id ` set (group_rows df_dup ''con''). u \<noteq> None} \<and>
   click \<lparr>users = 2, click = 3\<rparr>
     = int (length (filter (\<lambda>r. click_col r = 1) (group_rows df_dup ''con''))) \<and>
   int (users \<lparr>users = 2, click = 3\<rparr>) < click \<lparr>users = 2, click = 3\<rparr>"
proof -
  have h: "dfCounts df_dup ''con'' = Some \<lparr>users = 2, click = 3\<rparr>"
    by (rule df_dup_counts)
  have m: "map click_col (group_rows df_dup ''con'') = [1, 1, 1, 0]"
    and b: "\<forall>r \<in> set (group_rows df_dup ''con''). click_col r = 0 \<or> click_col r = 1"
    and l: "length (group_rows df_dup ''con'') < 2 ^ 63"
    by (simp_all add: df_dup_def group_rows_def)
  note t = aggregation_unchecked [of df_dup "''con''"]
  from t h b l have "users \<lparr>users = 2, click = 3\<rparr>
      = card {u \<in> user_id ` set (group_rows df_dup ''con''). u \<noteq> None}"
    and "click \<lparr>users = 2, click = 3\<rparr>
      = int (length (filter (\<lambda>r. click_col r = 1) (group_rows df_dup ''con'')))"
    by blast+
  with h m l show ?thesis by simp
qed

theorem aggregation_unchecked_counterexample:
  "dfCounts df_dup ''con'' = Some \<lparr>users = 2, click = 3\<rparr> \<and>
   dfCounts df_dup ''exp'' = Some \<lparr>users = 2, click = 1\<rparr> \<and>
   map_sum id p_con_hat (approach1 scipy_norm (5 / 100) (1 / 10) (dfCounts df_dup))
     = Inr (Fin (3 / 2)) \<and>
   map_sum id Test_stat (approach1 scipy_norm (5 / 100) (1 / 10) (dfCounts df_dup))
     = Inr PInf \<and>
   map_sum id p_value (approach1 scipy_norm (5 / 100) (1 / 10) (dfCounts df_dup))
     = Inr (Fin 0) \<and>
   map_sum id significant (approach1 scipy_norm (5 / 100) (1 / 10) (dfCounts df_dup))
     = Inr True"
proof -
  have run: "approach1 scipy_norm (5 / 100) (1 / 10) (dfCounts df_dup)
               = Inr (z_test scipy_norm (5 / 100) (1 / 10) 3 2 1 2)"
    using approach1_present [OF df_dup_counts] by simp
  show ?thesis
    unfolding run by (simp add: df_dup_counts z_test_def Let_def np_sub_def)
qed


section \<open>Cohen's d\<close>

lemma CTR_frame_Some:
  assumes "CTR_frame df g = Some t"
  shows "CTR t = mean (map click_col (group_rows df g))"
    and "std_deviation t = std_dev (map click_col (group_rows df g))"
  using assms by (auto simp: CTR_frame_def Let_def split: if_splits)

lemma CTR_is_rate:
  assumes "dfCounts df g = Some c" and "CTR_frame df g = Some t"
    and "distinct (map user_id (group_rows df g))"
    and "None \<notin> set (map user_id (group_rows df g))"
    and "- (2 ^ 63) \<le> sum_list (map click_col (group_rows df g))"
    and "sum_list (map click_col (group_rows df g)) < 2 ^ 63"
  shows "CTR t = real_of_int (click c) / real (users c)"
proof -
  let ?ids = "map user_id (group_rows df g)"
  from assms(1) have c: "c = \<lparr>users = length (remdups (filter (\<lambda>u. u \<noteq> None) ?ids)),
                  click = int64 (sum_list (map click_col (group_rows df g)))\<rparr>"
    by (auto simp: dfCounts_def Let_def split: if_splits)
  from assms(4) have "\<forall>u \<in> set ?ids. u \<noteq> None"
    by metis
  then have "filter (\<lambda>u. u \<noteq> None) ?ids = ?ids"
    by (rule filter_True)
  with assms(3) have "users c = length (group_rows df g)"
    by (simp add: c distinct_remdups_id)
  moreover have "click c = sum_list (map click_col (group_rows df g))"
    by (simp add: c int64_id [OF assms(5,6)])
  ultimately show ?thesis
    by (simp add: CTR_frame_Some(1) [OF assms(2)] mean_def)
qed

lemma pooled_sd_formula:
  assumes "2 < N_con + N_exp"
  shows "pooled_sd N_con N_exp sd_con sd_exp
           = np_sqrt (Fin (((real N_con - 1) * sd_con + (real N_exp - 1) * sd_exp)
                            / (real N_con + real N_exp - 2)))"
proof -
  from assms have "real N_con + real N_exp - 2 \<noteq> 0" by simp
  then show ?thesis by (simp add: pooled_sd_def)
qed

lemma approach2_present:
  assumes "dfCounts df ''con'' = Some nc" and "dfCounts df ''exp'' = Some ne"
  shows "approach2 df = cohens_d (users nc) (users ne) (CTR_frame df)"
  using assms by (simp add: approach2_def loc_def)

text \<open>
  Claim C5, as amended. For two groups with more than two users together and a positive
  value of
  \<open>((users_con - 1) * std_dev_con + (users_exp - 1) * std_dev_exp) / (users_con + users_exp - 2)\<close>,
  \<open>pooled_std_dev\<close> is the square root of that value, which weights the standard
  deviations and not the variances, and \<open>d\<close> is the experimental \<open>CTR\<close> minus the control
  \<open>CTR\<close>, divided by it; the run then ends with the category of \<open>d\<close>, or in \<open>NameError\<close>
  where it has none. \<open>CTR\<close> and \<open>std_dev\<close> are the mean and the population standard
  deviation of the click column over the rows of the group, and the users are its distinct
  user ids. The \<open>CTR\<close> of a group is its clicks divided by its users where every row of the
  group has a user id of its own and the sum of the clicks is within \<open>int64\<close>.
\<close>

theorem cohens_d_formula:
  assumes "dfCounts df ''con'' = Some nc" and "dfCounts df ''exp'' = Some ne"
    and "CTR_frame df ''con'' = Some tc" and "CTR_frame df ''exp'' = Some te"
    and "2 < users nc + users ne"
    and "0 < ((real (users nc) - 1) * std_deviation tc
                + (real (users ne) - 1) * std_deviation te)
             / (real (users nc) + real (users ne) - 2)"
  shows
    "(let psd = sqrt (((real (users nc) - 1) * std_deviation tc
                        + (real (users ne) - 1) * std_deviation te)
                      / (real (users nc) + real (users ne) - 2));
          dv = (CTR te - CTR tc) / psd
      in effect_d (users nc) (users ne) (CTR_frame df) = Inr (Fin psd, Fin dv) \<and>
         approach2 df =
           (case effect_of (Fin dv) of
              None \<Rightarrow> Inl (NameError ''effect'')
            | Some e \<Rightarrow> Inr \<lparr>pooled_std_dev = Fin psd, cohen_d = Fin dv, effect = e\<rparr>)) \<and>
     CTR tc = mean (map click_col (group_rows df ''con'')) \<and>
     CTR te = mean (map click_col (group_rows df ''exp'')) \<and>
     std_deviation tc = std_dev (map click_col (group_rows df ''con'')) \<and>
     std_deviation te = std_dev (map click_col (group_rows df ''exp'')) \<and>
     (distinct (map user_id (group_rows df ''con'')) \<and>
      None \<notin> set (map user_id (group_rows df ''con'')) \<and>
      - (2 ^ 63) \<le> sum_list (map click_col (group_rows df ''con'')) \<and>
      sum_list (map click_col (group_rows df ''con'')) < 2 ^ 63 \<longrightarrow>
        CTR tc = real_of_int (click nc) / real (users nc)) \<and>
     (distinct (map user_id (group_rows df ''exp'')) \<and>
      None \<notin> set (map user_id (group_rows df ''exp'')) \<and>
      - (2 ^ 63) \<le> sum_list (map click_col (group_rows df ''exp'')) \<and>
      sum_list (map click_col (group_rows df ''exp'')) < 2 ^ 63 \<longrightarrow>
        CTR te = real_of_int (click ne) / real (users ne))"
proof -
  define rad where "rad = ((real (users nc) - 1) * std_deviation tc
                        + (real (users ne) - 1) * std_deviation te)
                      / (real (users nc) + real (users ne) - 2)"
  from assms(6) have rad: "0 < rad" unfolding rad_def .
  have "pooled_sd (users nc) (users ne) (std_deviation tc) (std_deviation te)
          = np_sqrt (Fin rad)"
    unfolding rad_def by (rule pooled_sd_formula [OF assms(5)])
  with rad have p: "pooled_sd (users nc) (users ne) (std_deviation tc) (std_deviation te)
          = Fin (sqrt rad)"
    by simp
  from rad have nz: "sqrt rad \<noteq> 0" by simp
  have d: "effect_d (users nc) (users ne) (CTR_frame df)
             = Inr (Fin (sqrt rad), Fin ((CTR te - CTR tc) / sqrt rad))"
    using nz by (simp add: effect_d_def loc_def assms(3,4) p np_sub_def)
  have a: "approach2 df =
           (case effect_of (Fin ((CTR te - CTR tc) / sqrt rad)) of
              None \<Rightarrow> Inl (NameError ''effect'')
            | Some e \<Rightarrow> Inr \<lparr>pooled_std_dev = Fin (sqrt rad),
                             cohen_d = Fin ((CTR te - CTR tc) / sqrt rad), effect = e\<rparr>)"
    unfolding approach2_present [OF assms(1,2)] by (simp add: cohens_d_def d)
  from d a show ?thesis
    unfolding Let_def rad_def [symmetric]
    using CTR_frame_Some [OF assms(3)] CTR_frame_Some [OF assms(4)]
      CTR_is_rate [OF assms(1,3)] CTR_is_rate [OF assms(2,4)]
    by blast
qed


lemma sqrt_quarter: "sqrt (1 / 4) = 1 / 2"
  by (rule real_sqrt_unique) (simp_all add: power2_eq_square)

lemma df_up_frames:
  "dfCounts df_up ''con'' = Some \<lparr>users = 4, click = 2\<rparr>"
  "dfCounts df_up ''exp'' = Some \<lparr>users = 4, click = 4\<rparr>"
  "CTR_frame df_up ''con'' = Some \<lparr>CTR = 1 / 2, std_deviation = 1 / 2, std_error = 1 / 4\<rparr>"
  "CTR_frame df_up ''exp'' = Some \<lparr>CTR = 1, std_deviation = 0, std_error = 0\<rparr>"
  by (simp_all add: df_up_def dfCounts_def CTR_frame_def group_rows_def int64_def
        mean_def std_dev_def std_err_def power2_eq_square sqrt_quarter)

lemma df_down_frames:
  "dfCounts df_down ''con'' = Some \<lparr>users = 4, click = 2\<rparr>"
  "dfCounts df_down ''exp'' = Some \<lparr>users = 4, click = 0\<rparr>"
  "CTR_frame df_down ''con'' = Some \<lparr>CTR = 1 / 2, std_deviation = 1 / 2, std_error = 1 / 4\<rparr>"
  "CTR_frame df_down ''exp'' = Some \<lparr>CTR = 0, std_deviation = 0, std_error = 0\<rparr>"
  by (simp_all add: df_down_def dfCounts_def CTR_frame_def group_rows_def int64_def
        mean_def std_dev_def std_err_def power2_eq_square sqrt_quarter)

lemma pooled_sd_example: "pooled_sd 4 4 (1 / 2) 0 = Fin (1 / 2)"
  by (simp add: pooled_sd_def sqrt_quarter)

theorem cohens_d_formula_witness:
  "dfCounts df_up ''con'' = Some \<lparr>users = 4, click = 2\<rparr> \<and>
   dfCounts df_up ''exp'' = Some \<lparr>users = 4, click = 4\<rparr> \<and>
   CTR_frame df_up ''con'' = Some \<lparr>CTR = 1 / 2, std_deviation = 1 / 2, std_error = 1 / 4\<rparr> \<and>
   CTR_frame df_up ''exp'' = Some \<lparr>CTR = 1, std_deviation = 0, std_error = 0\<rparr> \<and>
   (0::real) < ((real 4 - 1) * (1 / 2) + (real 4 - 1) * 0) / (real 4 + real 4 - 2) \<and>
   distinct (map user_id (group_rows df_up ''con'')) \<and>
   None \<notin> set (map user_id (group_rows df_up ''con'')) \<and>
   sum_list (map click_col (group_rows df_up ''con'')) = 2 \<and>
   effect_d 4 4 (CTR_frame df_up) = Inr (Fin (1 / 2), Fin 1) \<and>
   approach2 df_up = Inr \<lparr>pooled_std_dev = Fin (1 / 2), cohen_d = Fin 1,
                           effect = ''large effect size''\<rparr> \<and>
   CTR \<lparr>CTR = 1 / 2, std_deviation = 1 / 2, std_error = 1 / 4\<rparr>
     = real_of_int (click \<lparr>users = 4, click = 2\<rparr>) / real (users \<lparr>users = 4, click = 2\<rparr>)"
proof -
  note f = df_up_frames
  let ?tc = "\<lparr>CTR = 1 / 2, std_deviation = 1 / 2, std_error = 1 / 4\<rparr>"
  let ?te = "\<lparr>CTR = 1, std_deviation = 0, std_error = 0\<rparr>"
  let ?nc = "\<lparr>users = 4, click = 2\<rparr>" and ?ne = "\<lparr>users = 4, click = 4\<rparr>"
  have h5: "2 < users ?nc + users ?ne"
    by simp
  have h6: "0 < ((real (users ?nc) - 1) * std_deviation ?tc
                  + (real (users ?ne) - 1) * std_deviation ?te)
               / (real (users ?nc) + real (users ?ne) - 2)"
    by simp
  have rows: "distinct (map user_id (group_rows df_up ''con''))"
    "None \<notin> set (map user_id (group_rows df_up ''con''))"
    "sum_list (map click_col (group_rows df_up ''con'')) = 2"
    by (simp_all add: df_up_def group_rows_def)
  have e: "effect_of (Fin 1) = Some ''large effect size''"
    by (simp add: effect_of_def np_ge_def)
  have r: "sqrt (((real (users ?nc) - 1) * std_deviation ?tc
                  + (real (users ?ne) - 1) * std_deviation ?te)
               / (real (users ?nc) + real (users ?ne) - 2)) = 1 / 2"
    using sqrt_quarter by simp
  note t = cohens_d_formula [OF f h5 h6, unfolded Let_def r]
  from t have "effect_d 4 4 (CTR_frame df_up) = Inr (Fin (1 / 2), Fin 1)"
    by simp
  moreover from t have "approach2 df_up = Inr \<lparr>pooled_std_dev = Fin (1 / 2), cohen_d = Fin 1,
                           effect = ''large effect size''\<rparr>"
    by (simp add: e)
  moreover from t rows have "CTR ?tc = real_of_int (click ?nc) / real (users ?nc)"
    by simp
  ultimately show ?thesis
    using f rows by simp
qed

lemma df_rep_frames:
  "dfCounts df_rep ''con'' = Some \<lparr>users = 2, click = 2\<rparr>"
  "dfCounts df_rep ''exp'' = Some \<lparr>users = 2, click = 1\<rparr>"
  "CTR_frame df_rep ''con'' = Some \<lparr>CTR = 1 / 2, std_deviation = 1 / 2, std_error = 1 / 4\<rparr>"
  "CTR_frame df_rep ''exp''
     = Some \<lparr>CTR = 1 / 2, std_deviation = 1 / 2, std_error = 1 / 2 / sqrt 2\<rparr>"
  by (simp_all add: df_rep_def dfCounts_def CTR_frame_def group_rows_def int64_def
        mean_def std_dev_def std_err_def power2_eq_square sqrt_quarter)

theorem cohens_d_formula_counterexample:
  "dfCounts df_rep ''con'' = Some \<lparr>users = 2, click = 2\<rparr> \<and>
   dfCounts df_rep ''exp'' = Some \<lparr>users = 2, click = 1\<rparr> \<and>
   approach2 df_rep = Inr \<lparr>pooled_std_dev = Fin (sqrt (1 / 2)), cohen_d = Fin 0,
                            effect = ''little or no effect''\<rparr> \<and>
   (real_of_int (click \<lparr>users = 2, click = 1\<rparr>) / real (users \<lparr>users = 2, click = 1\<rparr>)
      - real_of_int (click \<lparr>users = 2, click = 2\<rparr>) / real (users \<lparr>users = 2, click = 2\<rparr>))
     / sqrt (1 / 2) < 0"
proof -
  note f = df_rep_frames
  have p: "pooled_sd 2 2 (1 / 2) (1 / 2) = Fin (sqrt (1 / 2))"
    by (simp add: pooled_sd_def)
  have nz: "sqrt (1 / 2) \<noteq> 0" by simp
  have d: "effect_d 2 2 (CTR_frame df_rep) = Inr (Fin (sqrt (1 / 2)), Fin 0)"
    using nz by (simp add: effect_d_def loc_def f p np_sub_def del: real_sqrt_eq_zero_cancel_iff)
  have e: "effect_of (Fin 0) = Some ''little or no effect''"
    by (simp add: effect_of_def)
  have "approach2 df_rep = cohens_d 2 2 (CTR_frame df_rep)"
    using approach2_present [OF f(1,2)] by simp
  also have "\<dots> = Inr \<lparr>pooled_std_dev = Fin (sqrt (1 / 2)), cohen_d = Fin 0,
                            effect = ''little or no effect''\<rparr>"
    by (simp add: cohens_d_def d e)
  finally have a: "approach2 df_rep = Inr \<lparr>pooled_std_dev = Fin (sqrt (1 / 2)), cohen_d = Fin 0,
                            effect = ''little or no effect''\<rparr>" .
  have "(0::real) < sqrt (1 / 2)" by simp
  then have "(1 / 2 - 1) / sqrt (1 / 2) < 0"
    by (simp add: divide_neg_pos)
  with f a show ?thesis by simp
qed

section \<open>The category of the effect\<close>

lemma effect_of_nonneg:
  assumes "0 \<le> x"
  shows "effect_of (Fin x) =
           Some (if x < 2 / 10 then ''little or no effect''
                 else if x < 5 / 10 then ''small effect size''
                 else if x < 8 / 10 then ''medium effect size''
                 else ''large effect size'')"
  using assms by (simp add: effect_of_def np_ge_def)

lemma effect_of_none: "effect_of v = None \<longleftrightarrow> v = NaN \<or> v = NInf \<or> (\<exists>x<0. v = Fin x)"
  by (cases v) (auto simp: effect_of_def np_ge_def)

text \<open>
  Claim C6. Every value of \<open>d\<close> has a category: below 0.2 little or no effect, from 0.2
  small, from 0.5 medium, from 0.8 large. The chain of the notebook does so for \<open>0 \<le> d\<close>
  only. In \<open>df_down\<close> the experimental group clicks less than the control group and
  \<open>d = -1\<close>: no branch of the chain is taken, \<open>effect\<close> stays unbound, and the run ends
  in \<open>NameError\<close>.
\<close>

theorem negative_d_has_no_category:
  "effect_d 4 4 (CTR_frame df_down) = Inr (Fin (1 / 2), Fin (- 1)) \<and>
   effect_of (Fin (- 1)) = None \<and>
   approach2 df_down = Inl (NameError ''effect'')"
proof -
  note f = df_down_frames
  have d: "effect_d 4 4 (CTR_frame df_down) = Inr (Fin (1 / 2), Fin (- 1))"
    by (simp add: effect_d_def loc_def f pooled_sd_example np_sub_def)
  have e: "effect_of (Fin (- 1)) = None"
    by (simp add: effect_of_def np_ge_def)
  have "approach2 df_down = cohens_d 4 4 (CTR_frame df_down)"
    by (simp add: approach2_def loc_def f)
  also have "\<dots> = Inl (NameError ''effect'')"
    by (simp add: cohens_d_def d e)
  finally show ?thesis using d e by simp
qed

end
